theory Spec2Isabelle
  imports Main
begin

section \<open>Python values and exceptions\<close>

text \<open>
  The collector of \<^verbatim>\<open>src/data/collectors/ergast_collector.py\<close> walks the tree that
  \<^verbatim>\<open>response.json()\<close> returns. The tree is modelled by the datatype \<open>json\<close>:
  \<^verbatim>\<open>None\<close>, booleans, unbounded integers, strings, lists and dicts (a dict as the list of
  its items in insertion order). A string is a list of code points below 256; number
  literals with a fraction or an exponent are outside the model (the Ergast service
  encodes every scalar as a string). The keys of a dict are pairwise distinct.

  An exception is a value of \<open>error\<close>; a computation that may raise returns
  \<open>error + 'a\<close> with \<open>Inl\<close> for the exception.
\<close>

datatype json =
    JNull
  | JBool bool
  | JInt int
  | JStr string
  | JArr "json list"
  | JObj "(string \<times> json) list"

datatype error =
    KeyError string
  | TypeError
  | ValueError
  | AttributeError
  | OverflowError
  | OSError
  | HTTPError nat
  | RetryError
  | JSONDecodeError

text \<open>
  A Python \<^verbatim>\<open>float\<close> is a binary64 value: a finite value \<open>\<plusminus> m * 2 ^ e\<close> given by its
  sign, its significand \<open>m < 2 ^ 53\<close> and the exponent \<open>e\<close> of its last bit (between -1074
  and 971), an infinity with its sign, or a NaN.
\<close>

datatype pyfloat =
    Finite (negative: bool) (significand: nat) (exponent2: int)
  | Infinity bool
  | NaN

text \<open>
  The rate-limit delay is given as \<^verbatim>\<open>time.sleep\<close> reads the float it is passed: the number
  of nanoseconds to wait, or the exception that \<^verbatim>\<open>time.sleep\<close> raises for it
  (\<^verbatim>\<open>ValueError\<close> for a NaN or a negative delay, \<^verbatim>\<open>OverflowError\<close> or \<^verbatim>\<open>OSError\<close> for a delay
  beyond the range of the clock). The conversion of the float to nanoseconds is not
  modelled.
\<close>

datatype duration =
    Nanoseconds nat
  | Rejected error

text \<open>
  The values a result row can hold: a value of the JSON tree (which covers \<^verbatim>\<open>int\<close>,
  \<^verbatim>\<open>str\<close> and \<^verbatim>\<open>None\<close>), a float, or a \<^verbatim>\<open>pandas.Timestamp\<close>. The timestamp type
  is a parameter: \<^verbatim>\<open>pd.to_datetime\<close> is library code and is passed to the extractors as a
  function \<open>json \<Rightarrow> error + 'd\<close>.
\<close>

datatype 'd pyval =
    Json json
  | Float pyfloat
  | Timestamp 'd

type_synonym 'd row = "string \<rightharpoonup> 'd pyval"

definition ebind :: "error + 'a \<Rightarrow> ('a \<Rightarrow> error + 'b) \<Rightarrow> error + 'b" where
  "ebind m f = (case m of Inl e \<Rightarrow> Inl e | Inr x \<Rightarrow> f x)"

fun traverse :: "('a \<Rightarrow> error + 'b) \<Rightarrow> 'a list \<Rightarrow> error + 'b list" where
  "traverse f [] = Inr []"
| "traverse f (x # xs) =
     ebind (f x) (\<lambda>y. ebind (traverse f xs) (\<lambda>ys. Inr (y # ys)))"

subsection \<open>Dict and sequence operations on the JSON tree\<close>

text \<open>\<^verbatim>\<open>d[key]\<close> with a string key: only a dict accepts it.\<close>

fun subscript :: "json \<Rightarrow> string \<Rightarrow> error + json" where
  "subscript (JObj kvs) k =
     (case map_of kvs k of None \<Rightarrow> Inl (KeyError k) | Some v \<Rightarrow> Inr v)"
| "subscript _ k = Inl TypeError"

text \<open>\<^verbatim>\<open>d.get(key, default)\<close>: a method of dicts only.\<close>

fun dict_get :: "json \<Rightarrow> string \<Rightarrow> json \<Rightarrow> error + json" where
  "dict_get (JObj kvs) k d = (case map_of kvs k of None \<Rightarrow> Inr d | Some v \<Rightarrow> Inr v)"
| "dict_get _ k d = Inl AttributeError"

fun is_substring :: "string \<Rightarrow> string \<Rightarrow> bool" where
  "is_substring p [] = (p = [])"
| "is_substring p (c # cs) = (take (length p) (c # cs) = p \<or> is_substring p cs)"

text \<open>
  \<^verbatim>\<open>key in x\<close> with a string key: key membership for a dict, element membership for a
  list, substring test for a string, \<^verbatim>\<open>TypeError\<close> otherwise.
\<close>

fun py_in :: "string \<Rightarrow> json \<Rightarrow> error + bool" where
  "py_in k (JObj kvs) = Inr (k \<in> set (map fst kvs))"
| "py_in k (JArr xs) = Inr (JStr k \<in> set xs)"
| "py_in k (JStr s) = Inr (is_substring k s)"
| "py_in k _ = Inl TypeError"

text \<open>
  \<^verbatim>\<open>for item in x\<close>: the elements of a list, the keys of a dict, the characters of a
  string, \<^verbatim>\<open>TypeError\<close> otherwise.
\<close>

fun py_iter :: "json \<Rightarrow> error + json list" where
  "py_iter (JArr xs) = Inr xs"
| "py_iter (JObj kvs) = Inr (map (\<lambda>kv. JStr (fst kv)) kvs)"
| "py_iter (JStr s) = Inr (map (\<lambda>c. JStr [c]) s)"
| "py_iter _ = Inl TypeError"

subsection \<open>Characters and numerals\<close>

definition is_decimal :: "char \<Rightarrow> bool" where
  "is_decimal c = (c \<in> set ''0123456789'')"

text \<open>
  \<^verbatim>\<open>str.isdigit\<close> on one character: below code point 256 the decimal digits and the
  superscripts two, three and one (0xB2, 0xB3, 0xB9).
\<close>

definition char_isdigit :: "char \<Rightarrow> bool" where
  "char_isdigit c = (is_decimal c \<or> of_char c \<in> {178, 179, 185 :: nat})"

text \<open>
  The characters that \<^verbatim>\<open>int\<close> and \<^verbatim>\<open>float\<close> skip before and after a numeral, below
  code point 256: tab, line feed, vertical tab, form feed, carriage return, space, 0x85
  and 0xA0. (The separators 0x1C to 0x1F are white space for \<^verbatim>\<open>str.isspace\<close> but are not
  skipped.)
\<close>

definition numeric_space :: "char \<Rightarrow> bool" where
  "numeric_space c = (of_char c \<in> {9, 10, 11, 12, 13, 32, 133, 160 :: nat})"

definition digit_val :: "char \<Rightarrow> nat" where
  "digit_val c = of_char c - 48"

definition nat_of_digits :: "string \<Rightarrow> nat" where
  "nat_of_digits ds = foldl (\<lambda>a c. 10 * a + digit_val c) 0 ds"

definition strip_numeric :: "string \<Rightarrow> string" where
  "strip_numeric s = rev (dropWhile numeric_space (rev (dropWhile numeric_space s)))"

text \<open>
  The rest of a digit part after its first digit: digits, each optionally preceded by
  one underscore. Returns the digits read and the unread rest.
\<close>

fun digits_tail :: "string \<Rightarrow> string \<times> string" where
  "digits_tail [] = ([], [])"
| "digits_tail [c] = (if is_decimal c then ([c], []) else ([], [c]))"
| "digits_tail (c # d # ds) =
     (if is_decimal c then (let (xs, r) = digits_tail (d # ds) in (c # xs, r))
      else if c = CHR ''_'' \<and> is_decimal d then (let (xs, r) = digits_tail ds in (d # xs, r))
      else ([], c # d # ds))"

definition digitpart :: "string \<Rightarrow> (string \<times> string) option" where
  "digitpart s =
     (case s of
        [] \<Rightarrow> None
      | c # cs \<Rightarrow>
          if is_decimal c then (let (xs, r) = digits_tail cs in Some (c # xs, r)) else None)"

definition take_sign :: "string \<Rightarrow> bool \<times> string" where
  "take_sign s =
     (case s of
        [] \<Rightarrow> (False, [])
      | c # cs \<Rightarrow>
          if c = CHR ''-'' then (True, cs)
          else if c = CHR ''+'' then (False, cs)
          else (False, c # cs))"

text \<open>
  The interpreter's limit on the digits of an integer converted from or to a decimal
  string (\<^verbatim>\<open>sys.get_int_max_str_digits()\<close>, 4300 unless reconfigured).
\<close>

definition max_str_digits :: nat where
  "max_str_digits = 4300"

text \<open>
  \<^verbatim>\<open>int(x)\<close>. For a string: the surrounding skipped characters are dropped, one sign is
  allowed, the rest is one digit part of at most \<open>max_str_digits\<close> digits (leading zeros
  count, underscores do not); anything else raises \<^verbatim>\<open>ValueError\<close>.
\<close>

definition int_of_str :: "string \<Rightarrow> error + int" where
  "int_of_str s =
     (let (neg, u) = take_sign (strip_numeric s) in
      case digitpart u of
        Some (ds, []) \<Rightarrow>
          if max_str_digits < length ds then Inl ValueError
          else Inr (if neg then - int (nat_of_digits ds) else int (nat_of_digits ds))
      | _ \<Rightarrow> Inl ValueError)"

fun py_int :: "json \<Rightarrow> error + int" where
  "py_int (JStr s) = int_of_str s"
| "py_int (JInt i) = Inr i"
| "py_int (JBool b) = Inr (if b then 1 else 0)"
| "py_int _ = Inl TypeError"

text \<open>\<^verbatim>\<open>x.isdigit()\<close>: a method of strings only; false on the empty string.\<close>

fun isdigit :: "json \<Rightarrow> error + bool" where
  "isdigit (JStr s) = Inr (s \<noteq> [] \<and> list_all char_isdigit s)"
| "isdigit _ = Inl AttributeError"

subsection \<open>\<^verbatim>\<open>float(x)\<close>\<close>

text \<open>The number of binary digits of a natural number.\<close>

fun bitlen :: "nat \<Rightarrow> nat" where
  "bitlen n = (if n = 0 then 0 else Suc (bitlen (n div 2)))"

text \<open>
  The binary64 magnitude nearest to the fraction \<open>a / b\<close> (with \<open>b > 0\<close>), ties to the even
  significand: \<open>k\<close> is the binary exponent of the fraction, \<open>p\<close> the exponent of the last
  kept bit (53 bits, or fewer below the normal range), \<open>m\<close> the rounded significand. The
  result is the significand with the exponent of its last bit, or \<open>None\<close> when the value
  lies beyond the largest finite double.
\<close>

definition round_magnitude :: "nat \<Rightarrow> nat \<Rightarrow> (nat \<times> int) option" where
  "round_magnitude a b =
     (if a = 0 then Some (0, 0)
      else
        let k0 = int (bitlen a) - int (bitlen b);
            k = (if (if 0 \<le> k0 then b * 2 ^ nat k0 \<le> a else b \<le> a * 2 ^ nat (- k0))
                 then k0 else k0 - 1);
            p = max (k - 52) (- 1074);
            n = (if 0 \<le> p then a else a * 2 ^ nat (- p));
            d = (if 0 \<le> p then b * 2 ^ nat p else b);
            m0 = n div d;
            r = n mod d;
            m = (if d < 2 * r \<or> (2 * r = d \<and> odd m0) then m0 + 1 else m0)
        in if m = 0 then Some (0, 0)
           else if m = 2 ^ 53 then (if 971 < p + 1 then None else Some (2 ^ 52, p + 1))
           else if 971 < p then None
           else Some (m, p))"

text \<open>The double nearest to \<open>\<plusminus> a / b\<close>; a value too large becomes an infinity.\<close>

definition round_to_double :: "bool \<Rightarrow> nat \<Rightarrow> nat \<Rightarrow> pyfloat" where
  "round_to_double neg a b =
     (case round_magnitude a b of
        None \<Rightarrow> Infinity neg
      | Some (m, p) \<Rightarrow> Finite neg m p)"

definition lower_char :: "char \<Rightarrow> char" where
  "lower_char c =
     (let n = (of_char c :: nat) in if 65 \<le> n \<and> n \<le> 90 then char_of (n + 32) else c)"

text \<open>
  The number of a float literal: \<^verbatim>\<open>[digitpart] "." digitpart | digitpart ["."]\<close>.
  Returns the integer digits, the fraction digits and the unread rest.
\<close>

definition float_number :: "string \<Rightarrow> (string \<times> string \<times> string) option" where
  "float_number u =
     (case digitpart u of
        Some (ip, rest) \<Rightarrow>
          (case rest of
             [] \<Rightarrow> Some (ip, [], [])
           | c # r2 \<Rightarrow>
               if c = CHR ''.'' then
                 (case digitpart r2 of
                    Some (fp, r3) \<Rightarrow> Some (ip, fp, r3)
                  | None \<Rightarrow> Some (ip, [], r2))
               else Some (ip, [], c # r2))
      | None \<Rightarrow>
          (case u of
             [] \<Rightarrow> None
           | c # r2 \<Rightarrow>
               if c = CHR ''.'' then
                 (case digitpart r2 of
                    Some (fp, r3) \<Rightarrow> Some ([], fp, r3)
                  | None \<Rightarrow> None)
               else None))"

text \<open>The exponent of a float literal: nothing, or \<^verbatim>\<open>("e" | "E") [sign] digitpart\<close>.\<close>

definition float_exponent :: "string \<Rightarrow> int option" where
  "float_exponent r =
     (case r of
        [] \<Rightarrow> Some 0
      | c # cs \<Rightarrow>
          if c = CHR ''e'' \<or> c = CHR ''E'' then
            (let (neg, u) = take_sign cs in
             case digitpart u of
               Some (ds, []) \<Rightarrow>
                 Some (if neg then - int (nat_of_digits ds) else int (nat_of_digits ds))
             | _ \<Rightarrow> None)
          else None)"

text \<open>
  The value of a float literal after its sign: an infinity, a NaN, or a decimal literal
  whose value \<open>m * 10 ^ e\<close> is rounded to binary64.
\<close>

definition float_literal :: "bool \<Rightarrow> string \<Rightarrow> error + pyfloat" where
  "float_literal neg u =
     (let w = map lower_char u in
      if w = ''inf'' \<or> w = ''infinity'' then Inr (Infinity neg)
      else if w = ''nan'' then Inr NaN
      else
        (case float_number u of
           None \<Rightarrow> Inl ValueError
         | Some (ip, fp, r) \<Rightarrow>
             (case float_exponent r of
                None \<Rightarrow> Inl ValueError
              | Some x \<Rightarrow>
                  (let m = nat_of_digits (ip @ fp); e = x - int (length fp) in
                   Inr (if 0 \<le> e then round_to_double neg (m * 10 ^ nat e) 1
                        else round_to_double neg m (10 ^ nat (- e)))))))"

text \<open>
  \<^verbatim>\<open>float(s)\<close> for a string: the surrounding skipped characters are dropped, one sign is
  allowed, then comes the literal.
\<close>

definition float_of_str :: "string \<Rightarrow> error + pyfloat" where
  "float_of_str s = (let (neg, u) = take_sign (strip_numeric s) in float_literal neg u)"

text \<open>
  \<^verbatim>\<open>float(x)\<close>; an integer too large for a double raises \<^verbatim>\<open>OverflowError\<close>.
\<close>

fun py_float :: "json \<Rightarrow> error + pyfloat" where
  "py_float (JStr s) = float_of_str s"
| "py_float (JInt i) =
     (case round_to_double (i < 0) (nat \<bar>i\<bar>) 1 of
        Infinity neg \<Rightarrow> Inl OverflowError
      | f \<Rightarrow> Inr f)"
| "py_float (JBool b) = Inr (round_to_double False (if b then 1 else 0) 1)"
| "py_float _ = Inl TypeError"

text \<open>The comparison \<^verbatim>\<open>x >= 0\<close> on a float: true on both zeros, false on NaN.\<close>

fun float_nonneg :: "pyfloat \<Rightarrow> bool" where
  "float_nonneg (Finite neg m e) = (\<not> neg \<or> m = 0)"
| "float_nonneg (Infinity neg) = (\<not> neg)"
| "float_nonneg NaN = False"

subsection \<open>\<^verbatim>\<open>str(x)\<close> and f-string interpolation\<close>

fun digits_of_nat :: "nat \<Rightarrow> string" where
  "digits_of_nat n =
     (if n < 10 then [char_of (48 + n)]
      else digits_of_nat (n div 10) @ [char_of (48 + n mod 10)])"

text \<open>The decimal text of an integer, without the limit on its digits.\<close>

definition str_of_int :: "int \<Rightarrow> string" where
  "str_of_int i = (if i < 0 then CHR ''-'' # digits_of_nat (nat (- i)) else digits_of_nat (nat i))"

text \<open>\<^verbatim>\<open>str(i)\<close> raises \<^verbatim>\<open>ValueError\<close> when the integer has more than \<open>max_str_digits\<close> digits.\<close>

definition int_printable :: "int \<Rightarrow> bool" where
  "int_printable i = (length (digits_of_nat (nat \<bar>i\<bar>)) \<le> max_str_digits)"

definition hex_digit :: "nat \<Rightarrow> char" where
  "hex_digit n = (''0123456789abcdef'' ! (n mod 16))"

text \<open>
  \<^verbatim>\<open>repr\<close> of a string: single quotes unless the string holds a single quote and no
  double quote; the quote and the backslash are escaped, tab, newline and carriage
  return are written symbolically, and the other characters that are not printable as
  \<^verbatim>\<open>\xhh\<close>.
\<close>

definition char_printable :: "char \<Rightarrow> bool" where
  "char_printable c =
     (let n = (of_char c :: nat) in (32 \<le> n \<and> n < 127) \<or> (161 \<le> n \<and> n \<noteq> 173))"

definition repr_char :: "char \<Rightarrow> char \<Rightarrow> string" where
  "repr_char q c =
     (if c = q \<or> c = CHR 0x5C then [CHR 0x5C, c]
      else if c = CHR 0x09 then [CHR 0x5C, CHR ''t'']
      else if c = CHR 0x0A then [CHR 0x5C, CHR ''n'']
      else if c = CHR 0x0D then [CHR 0x5C, CHR ''r'']
      else if char_printable c then [c]
      else [CHR 0x5C, CHR ''x'', hex_digit (of_char c div 16), hex_digit (of_char c)])"

definition repr_str :: "string \<Rightarrow> string" where
  "repr_str s =
     (let q = (if CHR 0x27 \<in> set s \<and> CHR 0x22 \<notin> set s then CHR 0x22 else CHR 0x27)
      in q # concat (map (repr_char q) s) @ [q])"

fun join :: "string \<Rightarrow> string list \<Rightarrow> string" where
  "join sep [] = []"
| "join sep [x] = x"
| "join sep (x # y # ys) = x @ sep @ join sep (y # ys)"

text \<open>
  \<^verbatim>\<open>repr(x)\<close>: \<open>repr_text\<close> is the text, \<open>repr_ok\<close> tells whether every integer in the
  value can be printed.
\<close>

fun repr_ok :: "json \<Rightarrow> bool" where
  "repr_ok (JInt i) = int_printable i"
| "repr_ok (JArr xs) = list_all repr_ok xs"
| "repr_ok (JObj kvs) = list_all (\<lambda>kv. repr_ok (snd kv)) kvs"
| "repr_ok _ = True"

fun repr_text :: "json \<Rightarrow> string" where
  "repr_text JNull = ''None''"
| "repr_text (JBool b) = (if b then ''True'' else ''False'')"
| "repr_text (JInt i) = str_of_int i"
| "repr_text (JStr s) = repr_str s"
| "repr_text (JArr xs) = ''['' @ join '', '' (map repr_text xs) @ '']''"
| "repr_text (JObj kvs) =
     ''{'' @ join '', '' (map (\<lambda>kv. repr_str (fst kv) @ '': '' @ repr_text (snd kv)) kvs) @ ''}''"

definition py_repr :: "json \<Rightarrow> error + string" where
  "py_repr j = (if repr_ok j then Inr (repr_text j) else Inl ValueError)"

text \<open>\<^verbatim>\<open>f"{x}"\<close>: a string is inserted as it is, any other value through its \<^verbatim>\<open>repr\<close>.\<close>

fun py_str :: "json \<Rightarrow> error + string" where
  "py_str (JStr s) = Inr s"
| "py_str j = py_repr j"

text \<open>Truthiness, as tested by \<^verbatim>\<open>if x:\<close>.\<close>

fun truthy :: "json \<Rightarrow> bool" where
  "truthy JNull = False"
| "truthy (JBool b) = b"
| "truthy (JInt i) = (i \<noteq> 0)"
| "truthy (JStr s) = (s \<noteq> [])"
| "truthy (JArr xs) = (xs \<noteq> [])"
| "truthy (JObj kvs) = (kvs \<noteq> [])"

text \<open>A chain of subscripts \<^verbatim>\<open>x[k1][k2]...\<close>, evaluated left to right.\<close>

fun path :: "json \<Rightarrow> string list \<Rightarrow> error + json" where
  "path j [] = Inr j"
| "path j (k # ks) = ebind (subscript j k) (\<lambda>v. path v ks)"

section \<open>The request executor\<close>

text \<open>
  The remote service is simulated: \<open>srv i\<close> is the final response to the \<open>i\<close>-th HTTP
  attempt of a call (attempts counted from 0). A response carries its status code and
  its body decoded as JSON, \<open>None\<close> when the body is not valid JSON. Connection
  failures, redirects and \<^verbatim>\<open>Retry-After\<close> headers are not simulated.
\<close>

record response =
  status_code :: nat
  body :: "json option"

type_synonym server = "nat \<Rightarrow> response"

text \<open>
  The arguments of \<^verbatim>\<open>urllib3.util.retry.Retry\<close>. \<open>total\<close> is the number of retries the
  library allows: each retry decrements it, and the budget is exhausted when it would
  fall below zero.
\<close>

record retry =
  total :: nat
  backoff_factor :: nat
  status_forcelist :: "nat list"

record collector =
  rate_limit :: duration
  session :: retry

text \<open>
  What a call does to the outside world, in order: HTTP attempts (URL, query parameters,
  timeout), the pauses of the retry policy (\<open>BackoffSleep f k\<close>: the pause urllib3 derives
  from the backoff factor \<open>f\<close> after \<open>k\<close> consecutive failed attempts) and the rate-limit
  delay.
\<close>

datatype event =
    HttpGet string "(string \<times> json) list" nat
  | BackoffSleep nat nat
  | RateLimitSleep duration

text \<open>
  The query-parameter dicts live in a store, since \<^verbatim>\<open>_make_request\<close> mutates the dict it
  is given: \<open>heap st a\<close> is the dict at address \<open>a\<close> (its items in insertion order),
  \<open>fresh st\<close> the next unused address.
\<close>

record state =
  heap :: "nat \<Rightarrow> (string \<times> json) list"
  fresh :: nat
  events :: "event list"

definition BASE_URL :: string where
  "BASE_URL = ''https://ergast.com/api/f1''"

definition create_session :: retry where
  "create_session = \<lparr>total = 3, backoff_factor = 2, status_forcelist = [429, 500, 502, 503, 504]\<rparr>"

definition init :: "duration \<Rightarrow> collector" where
  "init rl = \<lparr>rate_limit = rl, session = create_session\<rparr>"

text \<open>
  \<^verbatim>\<open>session.get\<close> through the mounted adapter: attempt \<open>i\<close> with \<open>n\<close> retries left. A
  response whose status is in the force list is retried while the budget lasts and
  raises \<^verbatim>\<open>RetryError\<close> once it is spent; any other response is returned. The result
  comes with the events of the attempts made.
\<close>

fun send :: "retry \<Rightarrow> server \<Rightarrow> event \<Rightarrow> nat \<Rightarrow> nat \<Rightarrow> (error + response) \<times> event list" where
  "send rs srv ev i 0 =
     (if status_code (srv i) \<in> set (status_forcelist rs) then (Inl RetryError, [ev])
      else (Inr (srv i), [ev]))"
| "send rs srv ev i (Suc n) =
     (if status_code (srv i) \<in> set (status_forcelist rs) then
        (let (res, evs) = send rs srv ev (Suc i) n
         in (res, ev # BackoffSleep (backoff_factor rs) (Suc i) # evs))
      else (Inr (srv i), [ev]))"

definition raise_for_status :: "response \<Rightarrow> error + unit" where
  "raise_for_status r =
     (if 400 \<le> status_code r \<and> status_code r < 600 then Inl (HTTPError (status_code r))
      else Inr ())"

text \<open>\<^verbatim>\<open>time.sleep(d)\<close>: waits, or raises what the delay makes it raise.\<close>

fun sleep :: "duration \<Rightarrow> error + event" where
  "sleep (Nanoseconds n) = Inr (RateLimitSleep (Nanoseconds n))"
| "sleep (Rejected e) = Inl e"

definition alloc :: "state \<Rightarrow> nat \<times> state" where
  "alloc st = (fresh st, st\<lparr>heap := (heap st)(fresh st := []), fresh := Suc (fresh st)\<rparr>)"

definition setdefault :: "(string \<times> json) list \<Rightarrow> string \<Rightarrow> json \<Rightarrow> (string \<times> json) list" where
  "setdefault d k v = (if k \<in> set (map fst d) then d else d @ [(k, v)])"

text \<open>
  \<^verbatim>\<open>_make_request(endpoint, params)\<close>. \<open>params\<close> is the address of the caller's dict, or
  \<open>None\<close>, in which case a new dict is allocated. The \<^verbatim>\<open>except\<close> clause logs and raises
  again, so the exception is the result. (Logging is not modelled.)
\<close>

definition make_request ::
  "collector \<Rightarrow> server \<Rightarrow> string \<Rightarrow> nat option \<Rightarrow> state \<Rightarrow> (error + json) \<times> state" where
  "make_request c srv endpoint params st =
     (let url = BASE_URL @ ''/'' @ endpoint @ ''.json'';
          (p, st1) = (case params of None \<Rightarrow> alloc st | Some a \<Rightarrow> (a, st));
          st2 = st1\<lparr>heap := (heap st1)(p := setdefault (heap st1 p) ''limit'' (JInt 1000))\<rparr>;
          (res, evs) = send (session c) srv (HttpGet url (heap st2 p) 30) 0 (total (session c));
          st3 = st2\<lparr>events := events st2 @ evs\<rparr>
      in case res of
           Inl e \<Rightarrow> (Inl e, st3)
         | Inr r \<Rightarrow>
             (case raise_for_status r of
                Inl e \<Rightarrow> (Inl e, st3)
              | Inr u \<Rightarrow>
                  (case sleep (rate_limit c) of
                     Inl e \<Rightarrow> (Inl e, st3)
                   | Inr ev \<Rightarrow>
                       (case body r of
                          None \<Rightarrow> (Inl JSONDecodeError, st3\<lparr>events := events st3 @ [ev]\<rparr>)
                        | Some j \<Rightarrow> (Inr j, st3\<lparr>events := events st3 @ [ev]\<rparr>)))))"

fun is_attempt :: "event \<Rightarrow> bool" where
  "is_attempt (HttpGet u p t) = True"
| "is_attempt _ = False"

fun is_rate_sleep :: "event \<Rightarrow> bool" where
  "is_rate_sleep (RateLimitSleep d) = True"
| "is_rate_sleep _ = False"

text \<open>The number of HTTP attempts among the events of a call.\<close>

definition attempts :: "event list \<Rightarrow> nat" where
  "attempts evs = length (filter is_attempt evs)"

section \<open>The extractors\<close>

subsection \<open>Seasons\<close>

text \<open>
  One item of the comprehension of \<^verbatim>\<open>get_seasons\<close>: the chained comparison reads and
  converts the field once, the element expression once more.
\<close>

definition season_item :: "int \<Rightarrow> int \<Rightarrow> json \<Rightarrow> error + int list" where
  "season_item start_year end_year season =
     ebind (subscript season ''season'') (\<lambda>v.
     ebind (py_int v) (\<lambda>y.
       if start_year \<le> y \<and> y \<le> end_year then
         ebind (subscript season ''season'') (\<lambda>v2.
         ebind (py_int v2) (\<lambda>y2. Inr [y2]))
       else Inr []))"

text \<open>
  The body of \<^verbatim>\<open>get_seasons\<close> after the request. The message passed to \<^verbatim>\<open>logger.info\<close>
  interpolates \<^verbatim>\<open>start_year\<close> and \<^verbatim>\<open>end_year\<close>, which raises when one of them cannot be
  printed.
\<close>

definition seasons_rows :: "int \<Rightarrow> int \<Rightarrow> json \<Rightarrow> error + int list" where
  "seasons_rows start_year end_year response =
     ebind (path response [''MRData'', ''SeasonTable'', ''Seasons'']) (\<lambda>seasons_data.
     ebind (py_iter seasons_data) (\<lambda>items.
     ebind (traverse (season_item start_year end_year) items) (\<lambda>seasons.
     ebind (py_str (JInt start_year)) (\<lambda>log_start.
     ebind (py_str (JInt end_year)) (\<lambda>log_end.
       Inr (sort (concat seasons)))))))"

text \<open>
  \<^verbatim>\<open>get_seasons(start_year, end_year)\<close>; \<open>now_year\<close> is the value of
  \<^verbatim>\<open>pd.Timestamp.now().year\<close>, read before the request when \<open>end_year\<close> is \<open>None\<close>.
\<close>

definition get_seasons ::
  "collector \<Rightarrow> server \<Rightarrow> int \<Rightarrow> int \<Rightarrow> int option \<Rightarrow> state \<Rightarrow> (error + int list) \<times> state" where
  "get_seasons c srv now_year start_year end_year st =
     (let e = (case end_year of None \<Rightarrow> now_year | Some y \<Rightarrow> y);
          (response, st') = make_request c srv ''seasons'' None st
      in (ebind response (seasons_rows start_year e), st'))"

subsection \<open>Endpoints\<close>

text \<open>
  The endpoint of \<^verbatim>\<open>get_results\<close> and \<^verbatim>\<open>get_qualifying\<close>:
  \<^verbatim>\<open>f"{season}/{round_num}/results"\<close> if \<^verbatim>\<open>round_num\<close> is truthy, \<^verbatim>\<open>f"{season}/results"\<close>
  otherwise. An f-string raises before the request when a value cannot be printed.
\<close>

definition season_endpoint :: "json \<Rightarrow> json \<Rightarrow> string \<Rightarrow> error + string" where
  "season_endpoint season round_num kind =
     (if truthy round_num then
        ebind (py_str season) (\<lambda>s. ebind (py_str round_num) (\<lambda>r. Inr (s @ ''/'' @ r @ ''/'' @ kind)))
      else ebind (py_str season) (\<lambda>s. Inr (s @ ''/'' @ kind)))"

text \<open>
  The endpoint of \<^verbatim>\<open>get_drivers\<close> and \<^verbatim>\<open>get_constructors\<close>: \<^verbatim>\<open>f"{season}/drivers"\<close> if
  \<^verbatim>\<open>season\<close> is truthy, \<^verbatim>\<open>"drivers"\<close> otherwise.
\<close>

definition table_endpoint :: "json \<Rightarrow> string \<Rightarrow> error + string" where
  "table_endpoint season kind =
     (if truthy season then ebind (py_str season) (\<lambda>s. Inr (s @ ''/'' @ kind)) else Inr kind)"

subsection \<open>Races\<close>

definition race_row :: "(json \<Rightarrow> error + 'd) \<Rightarrow> json \<Rightarrow> error + 'd row" where
  "race_row to_datetime race =
     ebind (subscript race ''season'') (\<lambda>s.
     ebind (py_int s) (\<lambda>season.
     ebind (subscript race ''round'') (\<lambda>r.
     ebind (py_int r) (\<lambda>round.
     ebind (subscript race ''season'') (\<lambda>s2.
     ebind (py_str s2) (\<lambda>season_text.
     ebind (subscript race ''round'') (\<lambda>r2.
     ebind (py_str r2) (\<lambda>round_text.
     ebind (subscript race ''raceName'') (\<lambda>race_name.
     ebind (path race [''Circuit'', ''circuitId'']) (\<lambda>circuit_id.
     ebind (path race [''Circuit'', ''circuitName'']) (\<lambda>circuit_name.
     ebind (path race [''Circuit'', ''Location'', ''country'']) (\<lambda>country.
     ebind (subscript race ''date'') (\<lambda>d.
     ebind (to_datetime d) (\<lambda>date.
     ebind (dict_get race ''url'' (JStr [])) (\<lambda>url.
       let race_info = [
             ''season'' \<mapsto> Json (JInt season),
             ''round'' \<mapsto> Json (JInt round),
             ''race_id'' \<mapsto> Json (JStr (season_text @ ''_'' @ round_text)),
             ''race_name'' \<mapsto> Json race_name,
             ''circuit_id'' \<mapsto> Json circuit_id,
             ''circuit_name'' \<mapsto> Json circuit_name,
             ''country'' \<mapsto> Json country,
             ''date'' \<mapsto> Timestamp date,
             ''url'' \<mapsto> Json url]
       in ebind (py_in ''time'' race) (\<lambda>has_time.
            if has_time then
              ebind (subscript race ''time'') (\<lambda>t. Inr (race_info(''time'' \<mapsto> Json t)))
            else Inr race_info))))))))))))))))"

definition races_rows :: "(json \<Rightarrow> error + 'd) \<Rightarrow> json \<Rightarrow> error + 'd row list" where
  "races_rows to_datetime response =
     ebind (path response [''MRData'', ''RaceTable'', ''Races'']) (\<lambda>races_data.
     ebind (py_iter races_data) (\<lambda>items.
       traverse (race_row to_datetime) items))"

text \<open>
  \<^verbatim>\<open>get_races(season)\<close>. The table \<^verbatim>\<open>pd.DataFrame(races)\<close> is modelled by the list of
  row dicts it is built from, in order.
\<close>

definition get_races ::
  "collector \<Rightarrow> server \<Rightarrow> (json \<Rightarrow> error + 'd) \<Rightarrow> json \<Rightarrow> state \<Rightarrow> (error + 'd row list) \<times> state" where
  "get_races c srv to_datetime season st =
     (case py_str season of
        Inl e \<Rightarrow> (Inl e, st)
      | Inr endpoint \<Rightarrow>
          (let (response, st') = make_request c srv endpoint None st
           in (ebind response (races_rows to_datetime), st')))"

subsection \<open>Results\<close>

text \<open>The race context shared by the rows of one race block (results and qualifying).\<close>

definition race_info :: "(json \<Rightarrow> error + 'd) \<Rightarrow> json \<Rightarrow> error + 'd row" where
  "race_info to_datetime race =
     ebind (subscript race ''season'') (\<lambda>s.
     ebind (py_int s) (\<lambda>season.
     ebind (subscript race ''round'') (\<lambda>r.
     ebind (py_int r) (\<lambda>round.
     ebind (subscript race ''raceName'') (\<lambda>race_name.
     ebind (path race [''Circuit'', ''circuitId'']) (\<lambda>circuit_id.
     ebind (subscript race ''date'') (\<lambda>d.
     ebind (to_datetime d) (\<lambda>date.
       Inr [
         ''season'' \<mapsto> Json (JInt season),
         ''round'' \<mapsto> Json (JInt round),
         ''race_name'' \<mapsto> Json race_name,
         ''circuit_id'' \<mapsto> Json circuit_id,
         ''date'' \<mapsto> Timestamp date]))))))))"

text \<open>\<^verbatim>\<open>int(x[key]) if x[key].isdigit() else None\<close>: the test first, then the conversion.\<close>

definition int_if_digit :: "json \<Rightarrow> string \<Rightarrow> error + json" where
  "int_if_digit x key =
     ebind (subscript x key) (\<lambda>v.
     ebind (isdigit v) (\<lambda>b.
       if b then ebind (subscript x key) (\<lambda>v2. ebind (py_int v2) (\<lambda>n. Inr (JInt n)))
       else Inr JNull))"

text \<open>\<^verbatim>\<open>f"{x['Driver']['givenName']} {x['Driver']['familyName']}"\<close>.\<close>

definition driver_full_name :: "json \<Rightarrow> error + json" where
  "driver_full_name x =
     ebind (path x [''Driver'', ''givenName'']) (\<lambda>g.
     ebind (py_str g) (\<lambda>given.
     ebind (path x [''Driver'', ''familyName'']) (\<lambda>f.
     ebind (py_str f) (\<lambda>family.
       Inr (JStr (given @ '' '' @ family))))))"

text \<open>The race time: \<^verbatim>\<open>if "Time" in result and "time" in result["Time"]\<close>.\<close>

definition add_race_time :: "json \<Rightarrow> 'd row \<Rightarrow> error + 'd row" where
  "add_race_time result info =
     ebind (py_in ''Time'' result) (\<lambda>b1.
       if b1 then
         ebind (subscript result ''Time'') (\<lambda>t.
         ebind (py_in ''time'' t) (\<lambda>b2.
           if b2 then
             ebind (path result [''Time'', ''time'']) (\<lambda>v. Inr (info(''race_time'' \<mapsto> Json v)))
           else Inr info))
       else Inr info)"

text \<open>The fastest lap: \<^verbatim>\<open>if "FastestLap" in result\<close>, with \<^verbatim>\<open>fastest_lap.get("rank", 0)\<close>.\<close>

definition add_fastest_lap :: "json \<Rightarrow> 'd row \<Rightarrow> error + 'd row" where
  "add_fastest_lap result info =
     ebind (py_in ''FastestLap'' result) (\<lambda>b.
       if b then
         ebind (subscript result ''FastestLap'') (\<lambda>fastest_lap.
         ebind (dict_get fastest_lap ''rank'' (JInt 0)) (\<lambda>rk.
         ebind (py_int rk) (\<lambda>rank.
           let info1 = info(''fastest_lap_rank'' \<mapsto> Json (JInt rank))
           in ebind (py_in ''Time'' fastest_lap) (\<lambda>b2.
                if b2 then
                  ebind (path fastest_lap [''Time'', ''time'']) (\<lambda>v.
                    Inr (info1(''fastest_lap_time'' \<mapsto> Json v)))
                else Inr info1))))
       else Inr info)"

text \<open>
  The dict literal passed to \<^verbatim>\<open>result_info.update\<close>: its values are evaluated in the order
  they are written.
\<close>

definition result_fields :: "json \<Rightarrow> error + 'd row" where
  "result_fields result =
     ebind (int_if_digit result ''position'') (\<lambda>position.
     ebind (path result [''Driver'', ''driverId'']) (\<lambda>driver_id.
     ebind (driver_full_name result) (\<lambda>driver_name.
     ebind (path result [''Constructor'', ''constructorId'']) (\<lambda>constructor_id.
     ebind (path result [''Constructor'', ''name'']) (\<lambda>constructor_name.
     ebind (int_if_digit result ''grid'') (\<lambda>grid.
     ebind (subscript result ''laps'') (\<lambda>l.
     ebind (py_int l) (\<lambda>laps.
     ebind (subscript result ''status'') (\<lambda>status.
     ebind (subscript result ''points'') (\<lambda>p.
     ebind (py_float p) (\<lambda>points.
       Inr [
         ''position'' \<mapsto> Json position,
         ''driver_id'' \<mapsto> Json driver_id,
         ''driver_name'' \<mapsto> Json driver_name,
         ''constructor_id'' \<mapsto> Json constructor_id,
         ''constructor_name'' \<mapsto> Json constructor_name,
         ''grid'' \<mapsto> Json grid,
         ''laps'' \<mapsto> Json (JInt laps),
         ''status'' \<mapsto> Json status,
         ''points'' \<mapsto> Float points])))))))))))"

text \<open>
  One pass of the inner loop of \<^verbatim>\<open>get_results\<close>: the copy of the race context is updated
  with the fields of the result, then the optional fields are added.
\<close>

definition result_row :: "'d row \<Rightarrow> json \<Rightarrow> error + 'd row" where
  "result_row rinfo result =
     ebind (result_fields result) (\<lambda>flds.
     ebind (add_race_time result (rinfo ++ flds)) (\<lambda>result_info.
       add_fastest_lap result result_info))"

text \<open>The rows of one race block: the context, then one row per item of its list.\<close>

definition race_results :: "(json \<Rightarrow> error + 'd) \<Rightarrow> json \<Rightarrow> error + 'd row list" where
  "race_results to_datetime race =
     ebind (race_info to_datetime race) (\<lambda>rinfo.
     ebind (subscript race ''Results'') (\<lambda>rs.
     ebind (py_iter rs) (\<lambda>items.
       traverse (result_row rinfo) items)))"

definition results_rows :: "(json \<Rightarrow> error + 'd) \<Rightarrow> json \<Rightarrow> error + 'd row list" where
  "results_rows to_datetime response =
     ebind (path response [''MRData'', ''RaceTable'', ''Races'']) (\<lambda>races_data.
     ebind (py_iter races_data) (\<lambda>races.
     ebind (traverse (race_results to_datetime) races) (\<lambda>rows.
       Inr (concat rows))))"

definition get_results ::
  "collector \<Rightarrow> server \<Rightarrow> (json \<Rightarrow> error + 'd) \<Rightarrow> json \<Rightarrow> json \<Rightarrow> state
     \<Rightarrow> (error + 'd row list) \<times> state" where
  "get_results c srv to_datetime season round_num st =
     (case season_endpoint season round_num ''results'' of
        Inl e \<Rightarrow> (Inl e, st)
      | Inr endpoint \<Rightarrow>
          (let (response, st') = make_request c srv endpoint None st
           in (ebind response (results_rows to_datetime), st')))"

subsection \<open>Qualifying\<close>

text \<open>
  The loop \<^verbatim>\<open>for session in ["Q1", "Q2", "Q3"]\<close>: a session time is copied under the
  lower-cased key when the entry has it.
\<close>

fun add_sessions :: "json \<Rightarrow> (string \<times> string) list \<Rightarrow> 'd row \<Rightarrow> error + 'd row" where
  "add_sessions qual [] info = Inr info"
| "add_sessions qual ((sess, key) # rest) info =
     ebind (py_in sess qual) (\<lambda>b.
       if b then
         ebind (subscript qual sess) (\<lambda>v. add_sessions qual rest (info(key \<mapsto> Json v)))
       else add_sessions qual rest info)"

text \<open>The dict literal passed to \<^verbatim>\<open>qual_info.update\<close>.\<close>

definition qual_fields :: "json \<Rightarrow> error + 'd row" where
  "qual_fields qual =
     ebind (subscript qual ''position'') (\<lambda>p.
     ebind (py_int p) (\<lambda>position.
     ebind (path qual [''Driver'', ''driverId'']) (\<lambda>driver_id.
     ebind (driver_full_name qual) (\<lambda>driver_name.
     ebind (path qual [''Constructor'', ''constructorId'']) (\<lambda>constructor_id.
     ebind (path qual [''Constructor'', ''name'']) (\<lambda>constructor_name.
       Inr [
         ''position'' \<mapsto> Json (JInt position),
         ''driver_id'' \<mapsto> Json driver_id,
         ''driver_name'' \<mapsto> Json driver_name,
         ''constructor_id'' \<mapsto> Json constructor_id,
         ''constructor_name'' \<mapsto> Json constructor_name]))))))"

text \<open>
  One pass of the inner loop of \<^verbatim>\<open>get_qualifying\<close>: the copy of the race context is
  updated with the fields of the entry, then the session times are added.
\<close>

definition qual_row :: "'d row \<Rightarrow> json \<Rightarrow> error + 'd row" where
  "qual_row rinfo qual =
     ebind (qual_fields qual) (\<lambda>flds.
       add_sessions qual
         [(''Q1'', ''q1_time''), (''Q2'', ''q2_time''), (''Q3'', ''q3_time'')] (rinfo ++ flds))"

definition race_qualifying :: "(json \<Rightarrow> error + 'd) \<Rightarrow> json \<Rightarrow> error + 'd row list" where
  "race_qualifying to_datetime race =
     ebind (race_info to_datetime race) (\<lambda>rinfo.
     ebind (subscript race ''QualifyingResults'') (\<lambda>qs.
     ebind (py_iter qs) (\<lambda>items.
       traverse (qual_row rinfo) items)))"

definition qualifying_rows :: "(json \<Rightarrow> error + 'd) \<Rightarrow> json \<Rightarrow> error + 'd row list" where
  "qualifying_rows to_datetime response =
     ebind (path response [''MRData'', ''RaceTable'', ''Races'']) (\<lambda>races_data.
     ebind (py_iter races_data) (\<lambda>races.
     ebind (traverse (race_qualifying to_datetime) races) (\<lambda>rows.
       Inr (concat rows))))"

definition get_qualifying ::
  "collector \<Rightarrow> server \<Rightarrow> (json \<Rightarrow> error + 'd) \<Rightarrow> json \<Rightarrow> json \<Rightarrow> state
     \<Rightarrow> (error + 'd row list) \<times> state" where
  "get_qualifying c srv to_datetime season round_num st =
     (case season_endpoint season round_num ''qualifying'' of
        Inl e \<Rightarrow> (Inl e, st)
      | Inr endpoint \<Rightarrow>
          (let (response, st') = make_request c srv endpoint None st
           in (ebind response (qualifying_rows to_datetime), st')))"

subsection \<open>Drivers\<close>

definition driver_row :: "(json \<Rightarrow> error + 'd) \<Rightarrow> json \<Rightarrow> error + 'd row" where
  "driver_row to_datetime driver =
     ebind (subscript driver ''driverId'') (\<lambda>driver_id.
     ebind (subscript driver ''givenName'') (\<lambda>given_name.
     ebind (subscript driver ''familyName'') (\<lambda>family_name.
     ebind (subscript driver ''givenName'') (\<lambda>g.
     ebind (py_str g) (\<lambda>given.
     ebind (subscript driver ''familyName'') (\<lambda>f.
     ebind (py_str f) (\<lambda>family.
     ebind (subscript driver ''nationality'') (\<lambda>nationality.
     ebind (dict_get driver ''url'' (JStr [])) (\<lambda>url.
       let driver_info = [
             ''driver_id'' \<mapsto> Json driver_id,
             ''given_name'' \<mapsto> Json given_name,
             ''family_name'' \<mapsto> Json family_name,
             ''driver_name'' \<mapsto> Json (JStr (given @ '' '' @ family)),
             ''nationality'' \<mapsto> Json nationality,
             ''url'' \<mapsto> Json url]
       in ebind (py_in ''dateOfBirth'' driver) (\<lambda>b.
            if b then
              ebind (subscript driver ''dateOfBirth'') (\<lambda>d.
              ebind (to_datetime d) (\<lambda>dob.
                Inr (driver_info(''date_of_birth'' \<mapsto> Timestamp dob))))
            else Inr driver_info))))))))))"

definition drivers_rows :: "(json \<Rightarrow> error + 'd) \<Rightarrow> json \<Rightarrow> error + 'd row list" where
  "drivers_rows to_datetime response =
     ebind (path response [''MRData'', ''DriverTable'', ''Drivers'']) (\<lambda>drivers_data.
     ebind (py_iter drivers_data) (\<lambda>items.
       traverse (driver_row to_datetime) items))"

definition get_drivers ::
  "collector \<Rightarrow> server \<Rightarrow> (json \<Rightarrow> error + 'd) \<Rightarrow> json \<Rightarrow> state \<Rightarrow> (error + 'd row list) \<times> state" where
  "get_drivers c srv to_datetime season st =
     (case table_endpoint season ''drivers'' of
        Inl e \<Rightarrow> (Inl e, st)
      | Inr endpoint \<Rightarrow>
          (let (response, st') = make_request c srv endpoint None st
           in (ebind response (drivers_rows to_datetime), st')))"

subsection \<open>Constructors\<close>

definition constructor_row :: "json \<Rightarrow> error + 'd row" where
  "constructor_row constructor =
     ebind (subscript constructor ''constructorId'') (\<lambda>constructor_id.
     ebind (subscript constructor ''name'') (\<lambda>constructor_name.
     ebind (subscript constructor ''nationality'') (\<lambda>nationality.
     ebind (dict_get constructor ''url'' (JStr [])) (\<lambda>url.
       Inr [
         ''constructor_id'' \<mapsto> Json constructor_id,
         ''constructor_name'' \<mapsto> Json constructor_name,
         ''nationality'' \<mapsto> Json nationality,
         ''url'' \<mapsto> Json url]))))"

definition constructors_rows :: "json \<Rightarrow> error + 'd row list" where
  "constructors_rows response =
     ebind (path response [''MRData'', ''ConstructorTable'', ''Constructors'']) (\<lambda>constructors_data.
     ebind (py_iter constructors_data) (\<lambda>items.
       traverse constructor_row items))"

definition get_constructors ::
  "collector \<Rightarrow> server \<Rightarrow> json \<Rightarrow> state \<Rightarrow> (error + 'd row list) \<times> state" where
  "get_constructors c srv season st =
     (case table_endpoint season ''constructors'' of
        Inl e \<Rightarrow> (Inl e, st)
      | Inr endpoint \<Rightarrow>
          (let (response, st') = make_request c srv endpoint None st
           in (ebind response constructors_rows, st')))"

section \<open>Notions and inputs used in the statements\<close>

text \<open>The events a call appends to the trace.\<close>

definition new_events :: "state \<Rightarrow> state \<Rightarrow> event list" where
  "new_events st st' = drop (length (events st)) (events st')"

text \<open>The HTTP attempt of a call: the URL, the parameters after \<^verbatim>\<open>setdefault\<close>, the timeout.\<close>

definition request_event :: "string \<Rightarrow> nat option \<Rightarrow> state \<Rightarrow> event" where
  "request_event ep ps st =
     HttpGet (BASE_URL @ ''/'' @ ep @ ''.json'')
       (setdefault (case ps of None \<Rightarrow> [] | Some a \<Rightarrow> heap st a) ''limit'' (JInt 1000)) 30"

text \<open>What \<^verbatim>\<open>_make_request\<close> does with the outcome of \<^verbatim>\<open>session.get\<close>, as one function
  (used to reason about \<open>make_request\<close>; see \<open>make_request_result\<close>).\<close>

definition after_response :: "duration \<Rightarrow> error + response \<Rightarrow> (error + json) \<times> event list" where
  "after_response d x =
     (case x of
        Inl e \<Rightarrow> (Inl e, [])
      | Inr r \<Rightarrow>
          if 400 \<le> status_code r \<and> status_code r < 600 then (Inl (HTTPError (status_code r)), [])
          else
            (case sleep d of
               Inl e \<Rightarrow> (Inl e, [])
             | Inr ev \<Rightarrow>
                 (case body r of None \<Rightarrow> Inl JSONDecodeError | Some j \<Rightarrow> Inr j, [RateLimitSleep d])))"



definition flaky_twice :: server where
  "flaky_twice i =
     (if i < 2 then \<lparr>status_code = 503, body = None\<rparr>
      else \<lparr>status_code = 200, body = Some (JStr ''payload'')\<rparr>)"

text \<open>A store with no caller dict and an empty trace; a delay of one second (the default
  \<^verbatim>\<open>rate_limit\<close>), which \<^verbatim>\<open>time.sleep\<close> accepts.\<close>

definition empty_state :: state where
  "empty_state = \<lparr>heap = (\<lambda>a. []), fresh = 0, events = []\<rparr>"

definition one_second :: duration where
  "one_second = Nanoseconds 1000000000"

text \<open>A store in which the caller holds two parameter dicts: one without a \<^verbatim>\<open>limit\<close> key at
  address 0, one with \<^verbatim>\<open>limit=5\<close> at address 1.\<close>

definition caller_state :: state where
  "caller_state =
     \<lparr>heap = (\<lambda>a. if a = 0 then [(''offset'', JInt 30)]
                   else if a = 1 then [(''limit'', JInt 5)] else []),
      fresh = 2, events = []\<rparr>"

text \<open>A simulated service that answers every attempt with status 200 and the given body.\<close>

definition serving :: "json \<Rightarrow> server" where
  "serving j i = \<lparr>status_code = 200, body = Some j\<rparr>"

text \<open>
  The years of the season items of a seasons response, in the order of the response:
  \<^verbatim>\<open>int(season["season"])\<close> for every item of \<^verbatim>\<open>response["MRData"]["SeasonTable"]["Seasons"]\<close>.
\<close>

definition season_years :: "json \<Rightarrow> error + int list" where
  "season_years response =
     ebind (path response [''MRData'', ''SeasonTable'', ''Seasons'']) (\<lambda>seasons_data.
     ebind (py_iter seasons_data) (\<lambda>items.
       traverse (\<lambda>season. ebind (subscript season ''season'') py_int) items))"

text \<open>A seasons response listing the given season strings.\<close>

definition seasons_response :: "string list \<Rightarrow> json" where
  "seasons_response ys =
     JObj [(''MRData'', JObj [(''SeasonTable'',
        JObj [(''Seasons'', JArr (map (\<lambda>y. JObj [(''season'', JStr y)]) ys))])])]"

text \<open>
  The race blocks of a response, the result items of a race block and their number
  (\<open>0\<close> when the block has no list of results).
\<close>

definition races_of :: "json \<Rightarrow> error + json list" where
  "races_of response = ebind (path response [''MRData'', ''RaceTable'', ''Races'']) py_iter"

definition result_items :: "json \<Rightarrow> error + json list" where
  "result_items race = ebind (subscript race ''Results'') py_iter"



text \<open>
  Stand-in for \<^verbatim>\<open>pd.to_datetime\<close> in the concrete examples below: it keeps the text of a
  date string and rejects any other value. The general statements hold for every
  function in its place.
\<close>

definition keep_date :: "json \<Rightarrow> error + string" where
  "keep_date j = (case j of JStr s \<Rightarrow> Inr s | _ \<Rightarrow> Inl TypeError)"

text \<open>Sample source items: a driver, a constructor, a result item, a race block, a race table.\<close>

definition driver_json :: json where
  "driver_json =
     JObj [(''driverId'', JStr ''hamilton''), (''givenName'', JStr ''Lewis''),
           (''familyName'', JStr ''Hamilton''), (''nationality'', JStr ''British'')]"

definition constructor_json :: json where
  "constructor_json =
     JObj [(''constructorId'', JStr ''mclaren''), (''name'', JStr ''McLaren''),
           (''nationality'', JStr ''British'')]"

definition result_json :: "string \<Rightarrow> string \<Rightarrow> (string \<times> json) list \<Rightarrow> json" where
  "result_json pos pts extra =
     JObj ([(''position'', JStr pos), (''Driver'', driver_json), (''Constructor'', constructor_json),
            (''grid'', JStr ''1''), (''laps'', JStr ''58''), (''status'', JStr ''Finished''),
            (''points'', JStr pts)] @ extra)"

definition race_json :: "string \<Rightarrow> string \<Rightarrow> (string \<times> json) list \<Rightarrow> json" where
  "race_json season_str round_str extra =
     JObj ([(''season'', JStr season_str), (''round'', JStr round_str),
            (''raceName'', JStr ''Australian Grand Prix''),
            (''Circuit'', JObj [(''circuitId'', JStr ''albert_park''),
               (''circuitName'', JStr ''Albert Park''),
               (''Location'', JObj [(''country'', JStr ''Australia'')])]),
            (''date'', JStr ''2008-03-16'')] @ extra)"

definition race_table :: "json list \<Rightarrow> json" where
  "race_table races = JObj [(''MRData'', JObj [(''RaceTable'', JObj [(''Races'', JArr races)])])]"

text \<open>A results response with two race blocks, holding two results and one result.\<close>

definition two_races :: json where
  "two_races =
     race_table
       [race_json ''2008'' ''1'' [(''Results'', JArr [result_json ''1'' ''10'' [], result_json ''R'' ''0'' []])],
        race_json ''2008'' ''2'' [(''Results'', JArr [result_json ''2'' ''8'' []])]]"

text \<open>The values of one field over the rows of a table (\<open>None\<close> where a row lacks the key).\<close>

definition column :: "string \<Rightarrow> error + 'd row list \<Rightarrow> error + 'd pyval option list" where
  "column k res = (case res of Inl e \<Rightarrow> Inl e | Inr rows \<Rightarrow> Inr (map (\<lambda>row. row k) rows))"

text \<open>The value is a dict that has the key.\<close>

definition has_key :: "string \<Rightarrow> json \<Rightarrow> bool" where
  "has_key k j = (case j of JObj kvs \<Rightarrow> k \<in> set (map fst kvs) | _ \<Rightarrow> False)"

text \<open>More sample responses: a qualifying entry, a qualifying response whose only entry has the
  position \<^verbatim>\<open>"R"\<close>, a result with a fastest-lap block that has no rank, a result with the
  points \<^verbatim>\<open>"-1"\<close>, and a race block with the season \<^verbatim>\<open>" 2008"\<close> and the round \<^verbatim>\<open>"01"\<close>.\<close>

definition qual_json :: "string \<Rightarrow> (string \<times> json) list \<Rightarrow> json" where
  "qual_json pos extra =
     JObj ([(''position'', JStr pos), (''Driver'', driver_json),
            (''Constructor'', constructor_json)] @ extra)"

definition retired_qualifying :: json where
  "retired_qualifying =
     race_table
       [race_json ''2008'' ''1''
          [(''QualifyingResults'', JArr [qual_json ''R'' [(''Q1'', JStr ''1:26.572'')]])]]"


definition negative_points :: json where
  "negative_points =
     race_table [race_json ''2008'' ''1'' [(''Results'', JArr [result_json ''1'' ''-1'' []])]]"


text \<open>
  The rows of a results table come from the result items of the response, one row per
  item, race block after race block in the order of the response, and \<open>P\<close> relates
  every item to its row.
\<close>

definition rows_by_item :: "(json \<Rightarrow> 'd row \<Rightarrow> bool) \<Rightarrow> json \<Rightarrow> 'd row list \<Rightarrow> bool" where
  "rows_by_item P response rows =
     (\<exists>races rowss. races_of response = Inr races \<and> rows = concat rowss
        \<and> list_all2 (\<lambda>race rws. \<exists>items. result_items race = Inr items \<and> list_all2 P items rws)
              races rowss)"

text \<open>
  The \<open>points\<close> of a row is \<^verbatim>\<open>float(result["points"])\<close>; when the source is a string
  without a minus sign, it is a NaN or non-negative.
\<close>

definition points_from_source :: "json \<Rightarrow> 'd row \<Rightarrow> bool" where
  "points_from_source result row =
     (\<exists>p f. subscript result ''points'' = Inr p \<and> py_float p = Inr f
        \<and> row ''points'' = Some (Float f)
        \<and> (\<forall>s. p = JStr s \<and> CHR ''-'' \<notin> set s \<longrightarrow> f = NaN \<or> float_nonneg f))"



section \<open>Properties of the request executor\<close>

subsection \<open>The outcome and the events of a call\<close>

lemma sleep_event: "sleep d = Inr ev \<Longrightarrow> ev = RateLimitSleep d"
  by (cases d) auto

lemma make_request_result:
  "fst (make_request c srv ep ps st) =
     fst (after_response (rate_limit c)
       (fst (send (session c) srv (request_event ep ps st) 0 (total (session c)))))"
  by (auto simp: make_request_def Let_def alloc_def request_event_def after_response_def
      raise_for_status_def split: prod.splits sum.splits option.splits)

lemma make_request_new_events:
  "new_events st (snd (make_request c srv ep ps st)) =
     snd (send (session c) srv (request_event ep ps st) 0 (total (session c)))
     @ snd (after_response (rate_limit c)
       (fst (send (session c) srv (request_event ep ps st) 0 (total (session c)))))"
  by (auto simp: make_request_def Let_def alloc_def request_event_def after_response_def
      raise_for_status_def new_events_def split: prod.splits sum.splits option.splits
      dest: sleep_event)

lemma attempts_append: "attempts (xs @ ys) = attempts xs + attempts ys"
  by (simp add: attempts_def)




lemma send_three:
  "send rs srv ev 0 3 =
     (if status_code (srv 0) \<in> set (status_forcelist rs) then
        if status_code (srv 1) \<in> set (status_forcelist rs) then
          if status_code (srv 2) \<in> set (status_forcelist rs) then
            if status_code (srv 3) \<in> set (status_forcelist rs) then
              (Inl RetryError, [ev, BackoffSleep (backoff_factor rs) 1, ev,
                 BackoffSleep (backoff_factor rs) 2, ev, BackoffSleep (backoff_factor rs) 3, ev])
            else (Inr (srv 3), [ev, BackoffSleep (backoff_factor rs) 1, ev,
                 BackoffSleep (backoff_factor rs) 2, ev, BackoffSleep (backoff_factor rs) 3, ev])
          else (Inr (srv 2), [ev, BackoffSleep (backoff_factor rs) 1, ev,
                 BackoffSleep (backoff_factor rs) 2, ev])
        else (Inr (srv 1), [ev, BackoffSleep (backoff_factor rs) 1, ev])
      else (Inr (srv 0), [ev]))"
  by (simp add: numeral_3_eq_3 numeral_2_eq_2)

lemma init_simps: "session (init rl) = create_session" "rate_limit (init rl) = rl"
  "total create_session = 3" "backoff_factor create_session = 2"
  "set (status_forcelist create_session) = {429, 500, 502, 503, 504}"
  by (simp_all add: init_def create_session_def)

lemma send_events_shape:
  "snd (send rs srv ev i n) \<noteq> [] \<and> hd (snd (send rs srv ev i n)) = ev
   \<and> last (snd (send rs srv ev i n)) = ev"
  by (induction n arbitrary: i) (auto simp: split_beta)

lemma send_no_rate_sleep:
  "filter is_rate_sleep (snd (send rs srv (HttpGet u p t) i n)) = []"
  by (induction n arbitrary: i) (auto simp: split_beta)

lemma send_final_response:
  "fst (send rs srv (HttpGet u p t) i n) = Inr r \<Longrightarrow>
     r = srv (i + attempts (snd (send rs srv (HttpGet u p t) i n)) - 1)
     \<and> status_code r \<notin> set (status_forcelist rs)"
proof (induction n arbitrary: i)
  case 0
  then show ?case by (auto simp: attempts_def split: if_splits)
next
  case (Suc n)
  show ?case
  proof (cases "status_code (srv i) \<in> set (status_forcelist rs)")
    case True
    with Suc.prems have "fst (send rs srv (HttpGet u p t) (Suc i) n) = Inr r"
      by (simp add: split_beta)
    from Suc.IH [OF this] True show ?thesis
      by (auto simp: split_beta attempts_def)
  next
    case False
    with Suc.prems show ?thesis by (auto simp: attempts_def)
  qed
qed

subsection \<open>The retry budget\<close>




subsection \<open>The rate-limit delay\<close>

text \<open>
  Claim C9. Among the events of one call to the request executor: the first event is an
  HTTP attempt (no delay before the first attempt); the rate-limit delay occurs at most
  once; it occurs exactly once when the call returns a payload; and when it occurs it is
  the last event of the call, it comes right after an HTTP attempt, and the response to
  that last attempt has neither a retried status nor a status that \<^verbatim>\<open>raise_for_status\<close>
  rejects (so no delay follows a failed attempt).
\<close>

theorem rate_limit_delay_once_after_response:
  fixes c srv ep ps st
  defines "res \<equiv> fst (make_request c srv ep ps st)"
    and "evs \<equiv> new_events st (snd (make_request c srv ep ps st))"
  shows "evs \<noteq> [] \<and> is_attempt (hd evs)
   \<and> length (filter is_rate_sleep evs) \<le> 1
   \<and> (\<forall>j. res = Inr j \<longrightarrow> filter is_rate_sleep evs = [RateLimitSleep (rate_limit c)])
   \<and> (filter is_rate_sleep evs \<noteq> [] \<longrightarrow>
        (\<exists>pre. evs = pre @ [RateLimitSleep (rate_limit c)] \<and> pre \<noteq> [] \<and> is_attempt (last pre)
           \<and> filter is_rate_sleep pre = [])
        \<and> raise_for_status (srv (attempts evs - 1)) = Inr ()
        \<and> status_code (srv (attempts evs - 1)) \<notin> set (status_forcelist (session c)))"
proof -
  define ev where "ev = request_event ep ps st"
  define s where "s = send (session c) srv ev 0 (total (session c))"
  have ev: "ev = HttpGet (BASE_URL @ ''/'' @ ep @ ''.json'')
       (setdefault (case ps of None \<Rightarrow> [] | Some a \<Rightarrow> heap st a) ''limit'' (JInt 1000)) 30"
    by (simp add: ev_def request_event_def)
  have evs: "evs = snd s @ snd (after_response (rate_limit c) (fst s))"
    by (simp add: evs_def s_def ev_def make_request_new_events)
  have res: "res = fst (after_response (rate_limit c) (fst s))"
    by (simp add: res_def s_def ev_def make_request_result)
  have shape: "snd s \<noteq> []" "hd (snd s) = ev" "last (snd s) = ev"
    using send_events_shape [of "session c" srv ev 0 "total (session c)"] by (simp_all add: s_def)
  have norate: "filter is_rate_sleep (snd s) = []"
    unfolding s_def ev by (rule send_no_rate_sleep)
  have att: "is_attempt ev" by (simp add: ev)
  have tail: "snd (after_response (rate_limit c) (fst s)) = []
      \<or> snd (after_response (rate_limit c) (fst s)) = [RateLimitSleep (rate_limit c)]"
    by (simp add: after_response_def split: sum.splits)
  have p1: "evs \<noteq> [] \<and> is_attempt (hd evs)"
    using shape att by (simp add: evs)
  have p2: "length (filter is_rate_sleep evs) \<le> 1"
    using tail norate by (auto simp: evs)
  have p3: "\<forall>j. res = Inr j \<longrightarrow> filter is_rate_sleep evs = [RateLimitSleep (rate_limit c)]"
    using norate by (auto simp: evs res after_response_def split: sum.splits if_splits option.splits)
  have p4: "filter is_rate_sleep evs \<noteq> [] \<longrightarrow>
        (\<exists>pre. evs = pre @ [RateLimitSleep (rate_limit c)] \<and> pre \<noteq> [] \<and> is_attempt (last pre)
           \<and> filter is_rate_sleep pre = [])
        \<and> raise_for_status (srv (attempts evs - 1)) = Inr ()
        \<and> status_code (srv (attempts evs - 1)) \<notin> set (status_forcelist (session c))"
  proof
    assume ne: "filter is_rate_sleep evs \<noteq> []"
    with norate tail have t: "snd (after_response (rate_limit c) (fst s)) = [RateLimitSleep (rate_limit c)]"
      by (auto simp: evs)
    then obtain r where r: "fst s = Inr r" "\<not> (400 \<le> status_code r \<and> status_code r < 600)"
      by (auto simp: after_response_def split: sum.splits if_splits)
    from send_final_response [of "session c" srv _ _ 30 0 "total (session c)" r] r(1)
    have fin: "r = srv (attempts (snd s) - 1)" "status_code r \<notin> set (status_forcelist (session c))"
      by (simp_all add: s_def ev)
    have a: "attempts evs = attempts (snd s)"
      by (simp add: evs t attempts_append) (simp add: attempts_def)
    have "evs = snd s @ [RateLimitSleep (rate_limit c)]" by (simp add: evs t)
    with shape att norate have
      "\<exists>pre. evs = pre @ [RateLimitSleep (rate_limit c)] \<and> pre \<noteq> [] \<and> is_attempt (last pre)
           \<and> filter is_rate_sleep pre = []"
      by auto
    with fin r(2) a show "(\<exists>pre. evs = pre @ [RateLimitSleep (rate_limit c)] \<and> pre \<noteq> [] \<and> is_attempt (last pre)
           \<and> filter is_rate_sleep pre = [])
        \<and> raise_for_status (srv (attempts evs - 1)) = Inr ()
        \<and> status_code (srv (attempts evs - 1)) \<notin> set (status_forcelist (session c))"
      by (simp add: raise_for_status_def)
  qed
  from p1 p2 p3 p4 show ?thesis by blast
qed

theorem rate_limit_delay_once_after_response_witness:
  "fst (make_request (init one_second) flaky_twice ''seasons'' None empty_state) = Inr (JStr ''payload'')
   \<and> new_events empty_state
        (snd (make_request (init one_second) flaky_twice ''seasons'' None empty_state)) =
      [HttpGet ''https://ergast.com/api/f1/seasons.json'' [(''limit'', JInt 1000)] 30,
       BackoffSleep 2 1,
       HttpGet ''https://ergast.com/api/f1/seasons.json'' [(''limit'', JInt 1000)] 30,
       BackoffSleep 2 2,
       HttpGet ''https://ergast.com/api/f1/seasons.json'' [(''limit'', JInt 1000)] 30,
       RateLimitSleep one_second]
   \<and> raise_for_status (flaky_twice 2) = Inr ()"
  using rate_limit_delay_once_after_response
    [where c = "init one_second" and srv = flaky_twice and ep = "''seasons''" and ps = None
       and st = empty_state]
  by (simp add: make_request_result make_request_new_events init_simps send_three
      flaky_twice_def after_response_def request_event_def empty_state_def one_second_def
      setdefault_def BASE_URL_def raise_for_status_def)

subsection \<open>The default page size and the caller's dict\<close>

text \<open>
  Claim C10. When the caller passes its own parameter dict (at address \<open>a\<close>), the dict
  itself is changed by the call, whatever the outcome: if it has no \<^verbatim>\<open>limit\<close> key,
  \<^verbatim>\<open>limit=1000\<close> is inserted into it and stays there after the call; if it has one, the
  dict is left as it is. No other dict of the store is touched.
\<close>

theorem make_request_setdefault_caller_dict:
  "(''limit'' \<notin> fst ` set (heap st a) \<longrightarrow>
      heap (snd (make_request c srv ep (Some a) st)) a = heap st a @ [(''limit'', JInt 1000)])
   \<and> (''limit'' \<in> fst ` set (heap st a) \<longrightarrow>
      heap (snd (make_request c srv ep (Some a) st)) a = heap st a)
   \<and> (\<forall>b. b \<noteq> a \<longrightarrow> heap (snd (make_request c srv ep (Some a) st)) b = heap st b)"
  by (auto simp: make_request_def Let_def setdefault_def split: prod.splits sum.splits option.splits)

theorem make_request_setdefault_caller_dict_witness:
  "''limit'' \<notin> fst ` set (heap caller_state 0)
   \<and> heap (snd (make_request (init one_second) flaky_twice ''drivers'' (Some 0) caller_state)) 0 =
       [(''offset'', JInt 30), (''limit'', JInt 1000)]
   \<and> ''limit'' \<in> fst ` set (heap caller_state 1)
   \<and> heap (snd (make_request (init one_second) flaky_twice ''drivers'' (Some 1) caller_state)) 1 =
       [(''limit'', JInt 5)]
   \<and> heap (snd (make_request (init one_second) flaky_twice ''drivers'' (Some 1) caller_state)) 0 =
       [(''offset'', JInt 30)]"
  using make_request_setdefault_caller_dict
      [of caller_state 0 "init one_second" flaky_twice "''drivers''"]
    make_request_setdefault_caller_dict
      [of caller_state 1 "init one_second" flaky_twice "''drivers''"]
  by (simp add: caller_state_def)

section \<open>Properties of the extractors\<close>

subsection \<open>Sequencing\<close>

lemma ebind_Inr [simp]: "ebind (Inr x) f = f x"
  by (simp add: ebind_def)

lemma ebind_Inl [simp]: "ebind (Inl e) f = Inl e"
  by (simp add: ebind_def)

lemma ebind_eq_Inr: "ebind m f = Inr y \<longleftrightarrow> (\<exists>x. m = Inr x \<and> f x = Inr y)"
  by (cases m) simp_all

subsection \<open>Seasons\<close>

lemma season_item_eq:
  "season_item s e season =
     ebind (ebind (subscript season ''season'') py_int) (\<lambda>y. Inr (if s \<le> y \<and> y \<le> e then [y] else []))"
  by (cases "subscript season ''season''"; cases "py_int (projr (subscript season ''season''))")
     (auto simp: season_item_def)

lemma traverse_map_result:
  "traverse (\<lambda>x. ebind (f x) (\<lambda>y. Inr (g y))) xs = ebind (traverse f xs) (\<lambda>ys. Inr (map g ys))"
proof (induction xs)
  case Nil
  show ?case by simp
next
  case (Cons a xs)
  show ?case
    by (cases "f a"; cases "traverse f xs") (simp_all add: Cons)
qed

lemma traverse_season_item:
  "traverse (season_item s e) items =
     ebind (traverse (\<lambda>season. ebind (subscript season ''season'') py_int) items)
       (\<lambda>years. Inr (map (\<lambda>y. if s \<le> y \<and> y \<le> e then [y] else []) years))"
proof -
  have "season_item s e =
      (\<lambda>season. ebind (ebind (subscript season ''season'') py_int)
         (\<lambda>y. Inr (if s \<le> y \<and> y \<le> e then [y] else [])))"
    by (rule ext) (rule season_item_eq)
  then show ?thesis by (simp only: traverse_map_result)
qed

lemma concat_singletons: "concat (map (\<lambda>y. if P y then [y] else []) ys) = filter P ys"
  by (induction ys) simp_all

lemma py_repr_int: "int_printable i \<Longrightarrow> py_repr (JInt i) = Inr (str_of_int i)"
  by (simp add: py_repr_def)

lemma int_printable_small: "\<bar>i\<bar> < 10000 \<Longrightarrow> int_printable i"
proof -
  assume "\<bar>i\<bar> < 10000"
  then have n: "nat \<bar>i\<bar> < 10000" by simp
  have "length (digits_of_nat n) \<le> 4" if "n < 10000" for n
    using that
    by (subst digits_of_nat.simps, subst digits_of_nat.simps, subst digits_of_nat.simps,
        subst digits_of_nat.simps) (simp add: less_mult_imp_div_less)
  from this [OF n] show ?thesis by (simp add: int_printable_def max_str_digits_def)
qed

lemma seasons_rows_eq:
  assumes "int_printable s" and "int_printable e"
  shows "seasons_rows s e response =
     ebind (season_years response) (\<lambda>years. Inr (sort (filter (\<lambda>y. s \<le> y \<and> y \<le> e) years)))"
  using assms
  by (cases "path response [''MRData'', ''SeasonTable'', ''Seasons'']";
      cases "py_iter (projr (path response [''MRData'', ''SeasonTable'', ''Seasons'']))";
      cases "traverse (\<lambda>season. ebind (subscript season ''season'') py_int)
         (projr (py_iter (projr (path response [''MRData'', ''SeasonTable'', ''Seasons'']))))")
     (simp_all add: seasons_rows_def season_years_def traverse_season_item concat_singletons
        py_repr_int)

lemma count_list_insort: "count_list (insort x xs) y = count_list (x # xs) y"
  by (induction xs) auto

lemma count_list_sort: "count_list (sort xs) y = count_list xs (y::int)"
  by (induction xs) (simp_all add: count_list_insort)

lemma count_list_filter: "count_list (filter P xs) y = (if P y then count_list xs y else 0)"
  by (induction xs) auto

text \<open>
  Claim C4, amended. When the request returns a seasons response whose items all carry a
  season that \<^verbatim>\<open>int\<close> accepts, \<^verbatim>\<open>get_seasons\<close> returns the years \<open>y\<close> of the response with
  \<open>start_year \<le> y \<le> end_year\<close> (both bounds inclusive; the end is the current year when
  \<open>end_year\<close> is \<open>None\<close>), sorted ascending; every year occurs in the result as many times
  as in the response: duplicates are kept.
\<close>

theorem get_seasons_sorted_not_deduplicated:
  assumes "fst (make_request c srv ''seasons'' None st) = Inr response"
    and "season_years response = Inr years"
    and "int_printable start_year"
    and "int_printable (case end_year of None \<Rightarrow> now_year | Some e \<Rightarrow> e)"
  shows "\<exists>ys. fst (get_seasons c srv now_year start_year end_year st) = Inr ys
     \<and> ys = sort (filter (\<lambda>y. start_year \<le> y \<and> y \<le> (case end_year of None \<Rightarrow> now_year | Some e \<Rightarrow> e)) years)
     \<and> sorted ys
     \<and> (\<forall>y. count_list ys y =
          (if start_year \<le> y \<and> y \<le> (case end_year of None \<Rightarrow> now_year | Some e \<Rightarrow> e)
           then count_list years y else 0))"
  using assms
  by (simp add: get_seasons_def split_beta Let_def seasons_rows_eq count_list_sort count_list_filter)

lemma serving_request:
  "fst (make_request (init one_second) (serving j) ep ps st) = Inr j"
  by (simp add: make_request_result init_simps send_three serving_def after_response_def
      one_second_def)

text \<open>
  Claim C4 says that the returned seasons are deduplicated. The method returns
  \<^verbatim>\<open>sorted(seasons)\<close> and removes nothing: a response that lists 2000 twice gives 2000
  twice.
\<close>

theorem get_seasons_keeps_duplicates:
  "fst (get_seasons (init one_second) (serving (seasons_response [''2000'', ''1999'', ''2000'']))
         2024 1950 None empty_state) = Inr [1999, 2000, 2000]"
  by (simp add: get_seasons_def split_beta serving_request seasons_rows_eq int_printable_small
      season_years_def seasons_response_def int_of_str_def strip_numeric_def take_sign_def digitpart_def
      is_decimal_def numeric_space_def max_str_digits_def nat_of_digits_def digit_val_def)

subsection \<open>Results\<close>

lemma traverse_Inr_iff:
  "traverse f xs = Inr ys \<longleftrightarrow> list_all2 (\<lambda>x y. f x = Inr y) xs ys"
proof (induction xs arbitrary: ys)
  case Nil
  show ?case by auto
next
  case (Cons a xs)
  show ?case
    by (cases "f a"; cases "traverse f xs"; cases ys) (auto simp: Cons [symmetric])
qed

lemma add_race_time_other:
  "add_race_time result info = Inr row \<Longrightarrow> k \<noteq> ''race_time'' \<Longrightarrow> row k = info k"
  by (auto simp: add_race_time_def ebind_eq_Inr split: if_splits)

lemma add_fastest_lap_other:
  "add_fastest_lap result info = Inr row \<Longrightarrow> k \<noteq> ''fastest_lap_rank'' \<Longrightarrow>
     k \<noteq> ''fastest_lap_time'' \<Longrightarrow> row k = info k"
  by (auto simp: add_fastest_lap_def ebind_eq_Inr Let_def split: if_splits)







lemmas numeral_eval =
  int_of_str_def float_of_str_def strip_numeric_def take_sign_def digitpart_def is_decimal_def
  numeric_space_def max_str_digits_def char_isdigit_def nat_of_digits_def digit_val_def float_number_def
  float_exponent_def lower_char_def float_literal_def round_to_double_def round_magnitude_def Let_def

lemmas sample_defs =
  race_table_def race_json_def result_json_def driver_json_def constructor_json_def keep_date_def

lemmas results_defs =
  results_rows_def race_results_def race_info_def result_row_def result_fields_def int_if_digit_def
  driver_full_name_def add_race_time_def add_fastest_lap_def

theorem get_seasons_sorted_not_deduplicated_witness:
  "fst (get_seasons (init one_second)
         (serving (seasons_response [''1949'', ''2024'', ''1950'', ''2025'', ''1950'']))
         2024 1950 None empty_state) = Inr [1950, 1950, 2024]"
proof -
  have h1: "fst (make_request (init one_second)
        (serving (seasons_response [''1949'', ''2024'', ''1950'', ''2025'', ''1950'']))
        ''seasons'' None empty_state) = Inr (seasons_response [''1949'', ''2024'', ''1950'', ''2025'', ''1950''])"
    by (rule serving_request)
  have h2: "season_years (seasons_response [''1949'', ''2024'', ''1950'', ''2025'', ''1950''])
      = Inr [1949, 2024, 1950, 2025, 1950]"
    by (simp add: season_years_def seasons_response_def numeral_eval)
  have h3: "int_printable 1950" "int_printable (case None of None \<Rightarrow> 2024 | Some e \<Rightarrow> e)"
    by (simp_all add: int_printable_small)
  from get_seasons_sorted_not_deduplicated [OF h1 h2 h3]
  show ?thesis by simp
qed




lemmas float_eval = bitlen.simps

lemmas qualifying_defs =
  qualifying_rows_def race_qualifying_def race_info_def qual_row_def qual_fields_def
  driver_full_name_def

subsection \<open>Non-digit positions\<close>

lemma season_endpoint_int:
  "\<bar>i\<bar> < 10000 \<Longrightarrow> season_endpoint (JInt i) JNull kind = Inr (str_of_int i @ ''/'' @ kind)"
  by (simp add: season_endpoint_def py_repr_int int_printable_small)

lemma get_results_serving:
  "fst (get_results (init one_second) (serving j) to_datetime (JInt 2008) JNull st) =
     results_rows to_datetime j"
  by (simp add: get_results_def split_beta Let_def serving_request season_endpoint_int)

lemma get_qualifying_serving:
  "fst (get_qualifying (init one_second) (serving j) to_datetime (JInt 2008) JNull st) =
     qualifying_rows to_datetime j"
  by (simp add: get_qualifying_def split_beta Let_def serving_request season_endpoint_int)

text \<open>
  Claim C2 says that in every extractor a position whose source value is not made of
  digits gives an absent value and never an error. The results extractor tests
  \<^verbatim>\<open>isdigit\<close> before converting; the qualifying extractor converts with
  \<^verbatim>\<open>int(qual["position"])\<close> unguarded. A qualifying entry with the position \<^verbatim>\<open>"R"\<close> makes
  \<^verbatim>\<open>get_qualifying\<close> raise \<^verbatim>\<open>ValueError\<close>, while the same marker in a result gives \<^verbatim>\<open>None\<close>.
\<close>

theorem qualifying_position_unguarded:
  "fst (get_qualifying (init one_second) (serving retired_qualifying) keep_date
          (JInt 2008) JNull empty_state) = Inl ValueError
   \<and> column ''position''
        (fst (get_results (init one_second) (serving two_races) keep_date
               (JInt 2008) JNull empty_state)) =
      Inr [Some (Json (JInt 1)), Some (Json JNull), Some (Json (JInt 2))]"
  by (simp add: get_qualifying_serving get_results_serving column_def retired_qualifying_def
      two_races_def qual_json_def sample_defs qualifying_defs results_defs numeral_eval float_eval)


text \<open>
  Claim C8 says that \<open>points\<close> is always non-negative. The source stores
  \<^verbatim>\<open>float(result["points"])\<close> unchecked: the source value \<^verbatim>\<open>"-1"\<close> gives -1.0.
\<close>

theorem points_can_be_negative:
  "column ''points''
     (fst (get_results (init one_second) (serving negative_points) keep_date
            (JInt 2008) JNull empty_state)) = Inr [Some (Float (Finite True 4503599627370496 (- 52)))]
   \<and> \<not> float_nonneg (Finite True 4503599627370496 (- 52))"
  by (simp add: get_results_serving column_def negative_points_def
      sample_defs results_defs numeral_eval float_eval)


subsection \<open>Rows and the items they come from\<close>

lemma race_results_items:
  assumes "race_results to_datetime race = Inr rws"
  shows "\<exists>rinfo items. race_info to_datetime race = Inr rinfo \<and> result_items race = Inr items
     \<and> list_all2 (\<lambda>result row. result_row rinfo result = Inr row) items rws"
  using assms
  by (auto simp: race_results_def result_items_def ebind_eq_Inr traverse_Inr_iff)

lemma results_rows_items:
  assumes "results_rows to_datetime response = Inr rows"
  shows "\<exists>races rowss. races_of response = Inr races \<and> rows = concat rowss
     \<and> list_all2 (\<lambda>race rws. race_results to_datetime race = Inr rws) races rowss"
  using assms
  by (auto simp: results_rows_def races_of_def ebind_eq_Inr traverse_Inr_iff)

lemma rows_by_itemI:
  assumes "results_rows to_datetime response = Inr rows"
    and "\<And>race rinfo result row. race_info to_datetime race = Inr rinfo \<Longrightarrow>
           result_row rinfo result = Inr row \<Longrightarrow> P result row"
  shows "rows_by_item P response rows"
proof -
  from results_rows_items [OF assms(1)] obtain races rowss where
    r: "races_of response = Inr races" "rows = concat rowss" and
    la: "list_all2 (\<lambda>race rws. race_results to_datetime race = Inr rws) races rowss"
    by blast
  have "list_all2 (\<lambda>race rws. \<exists>items. result_items race = Inr items \<and> list_all2 P items rws)
      races rowss"
    using la
  proof (rule list_all2_mono)
    fix race and rws :: "'a row list"
    assume "race_results to_datetime race = Inr rws"
    from race_results_items [OF this] obtain rinfo items where
      ri: "race_info to_datetime race = Inr rinfo" and it: "result_items race = Inr items" and
      l2: "list_all2 (\<lambda>result row. result_row rinfo result = Inr row) items rws"
      by blast
    from l2 have "list_all2 P items rws"
      by (rule list_all2_mono) (rule assms(2) [OF ri])
    with it show "\<exists>items. result_items race = Inr items \<and> list_all2 P items rws"
      by blast
  qed
  with r show ?thesis unfolding rows_by_item_def by blast
qed

subsection \<open>Points\<close>

lemma result_fields_values:
  "result_fields result = Inr flds \<Longrightarrow>
     \<exists>pos grid p f. int_if_digit result ''position'' = Inr pos
       \<and> int_if_digit result ''grid'' = Inr grid
       \<and> subscript result ''points'' = Inr p \<and> py_float p = Inr f
       \<and> flds ''position'' = Some (Json pos) \<and> flds ''grid'' = Some (Json grid)
       \<and> flds ''points'' = Some (Float f)"
  by (auto simp: result_fields_def ebind_eq_Inr)

lemma result_row_fields:
  assumes "result_row rinfo result = Inr row"
  shows "\<exists>flds. result_fields result = Inr flds
     \<and> row ''position'' = flds ''position'' \<and> row ''grid'' = flds ''grid''
     \<and> row ''points'' = flds ''points''"
proof -
  from assms obtain flds info1 where
    f: "result_fields result = Inr flds" and
    i1: "add_race_time result (rinfo ++ flds) = Inr info1" and
    i2: "add_fastest_lap result info1 = Inr row"
    by (auto simp: result_row_def ebind_eq_Inr)
  from result_fields_values [OF f] have d: "flds ''position'' \<noteq> None" "flds ''grid'' \<noteq> None"
    "flds ''points'' \<noteq> None"
    by auto
  have "row k = flds k" if "k \<in> {''position'', ''grid'', ''points''}" "flds k \<noteq> None" for k
  proof -
    from that(1) have "row k = info1 k"
      by (intro add_fastest_lap_other [OF i2]) auto
    also from that(1) have "info1 k = (rinfo ++ flds) k"
      by (intro add_race_time_other [OF i1]) auto
    also from that(2) have "(rinfo ++ flds) k = flds k"
      by (auto simp: map_add_def split: option.splits)
    finally show ?thesis .
  qed
  with f d show ?thesis by auto
qed

lemma take_sign_no_minus: "CHR ''-'' \<notin> set s \<Longrightarrow> fst (take_sign s) = False"
  by (cases s) (auto simp: take_sign_def)

lemma set_strip_numeric: "set (strip_numeric s) \<subseteq> set s"
proof -
  have a: "set (dropWhile P xs) \<subseteq> set xs" for P and xs :: string
    by (induction xs) auto
  have "set (strip_numeric s) = set (dropWhile numeric_space (rev (dropWhile numeric_space s)))"
    by (simp add: strip_numeric_def)
  also have "\<dots> \<subseteq> set (rev (dropWhile numeric_space s))" by (rule a)
  also have "\<dots> = set (dropWhile numeric_space s)" by simp
  also have "\<dots> \<subseteq> set s" by (rule a)
  finally show ?thesis .
qed

lemma round_to_double_nonneg: "float_nonneg (round_to_double False a b)"
  by (simp add: round_to_double_def split: option.splits prod.splits)

lemma float_literal_nonneg:
  assumes "float_literal False u = Inr f"
  shows "f = NaN \<or> float_nonneg f"
proof (cases "map lower_char u = ''inf'' \<or> map lower_char u = ''infinity''")
  case True
  with assms show ?thesis by (auto simp: float_literal_def Let_def)
next
  case ni: False
  show ?thesis
  proof (cases "map lower_char u = ''nan''")
    case True
    with assms ni show ?thesis by (auto simp: float_literal_def Let_def)
  next
    case False
    with assms ni obtain a b where "f = round_to_double False a b"
      by (auto simp: float_literal_def Let_def split: option.splits if_splits)
    then show ?thesis by (simp add: round_to_double_nonneg)
  qed
qed

lemma float_of_str_no_minus:
  assumes "float_of_str s = Inr f" and "CHR ''-'' \<notin> set s"
  shows "f = NaN \<or> float_nonneg f"
proof -
  from assms(2) set_strip_numeric [of s] have "CHR ''-'' \<notin> set (strip_numeric s)" by auto
  then have "fst (take_sign (strip_numeric s)) = False" by (rule take_sign_no_minus)
  with assms(1) have "float_literal False (snd (take_sign (strip_numeric s))) = Inr f"
    by (simp add: float_of_str_def split_beta)
  then show ?thesis by (rule float_literal_nonneg)
qed

text \<open>
  Claim C8, amended. In every table the results extractor returns, the \<open>points\<close> of a
  row is the float \<^verbatim>\<open>float(result["points"])\<close> of its result item, whatever its sign; it is
  non-negative (or a NaN) when the source is a string without a minus sign.
\<close>

theorem points_are_float_of_source:
  assumes "results_rows to_datetime response = Inr rows"
  shows "rows_by_item points_from_source response rows"
  using assms
proof (rule rows_by_itemI)
  fix race :: json and rinfo :: "'a row" and result row
  assume "result_row rinfo result = Inr row"
  from result_row_fields [OF this] obtain flds where
    f: "result_fields result = Inr flds" and r: "row ''points'' = flds ''points''"
    by blast
  from result_fields_values [OF f] obtain p f where
    p: "subscript result ''points'' = Inr p" "py_float p = Inr f" "flds ''points'' = Some (Float f)"
    by blast
  have "f = NaN \<or> float_nonneg f" if "p = JStr s" "CHR ''-'' \<notin> set s" for s
    using p(2) that float_of_str_no_minus [of s f] by simp
  with p r show "points_from_source result row"
    unfolding points_from_source_def by auto
qed

subsection \<open>Defaults and absent fields in a result\<close>




lemma py_in_dict: "py_in k (JObj kvs) = Inr (has_key k (JObj kvs))"
  by (simp add: has_key_def)










theorem points_are_float_of_source_witness:
  "\<exists>rows. results_rows keep_date two_races = Inr rows
     \<and> rows_by_item points_from_source two_races rows"
proof -
  obtain rows where h: "results_rows keep_date two_races = Inr rows"
    by (simp add: two_races_def sample_defs results_defs numeral_eval float_eval)
  from points_are_float_of_source [OF h] h show ?thesis by blast
qed


end
